theory Spec2Isabelle
  imports Complex_Main "HOL-Library.Word" "HOL-Library.Log_Nat" "HOL-Library.Product_Lexorder"
    "HOL-Library.Code_Target_Numeral"
begin

section \<open>JavaScript numbers\<close>

text \<open>
  A Number of JavaScript is an IEEE 754 double: a finite value, one of the two
  infinities, or \<^verbatim>\<open>NaN\<close>. A finite double is kept as the real it denotes; the
  arithmetic below rounds every result to the nearest double. Negative zero is
  identified with zero: truthiness, comparison, the conversion to a string, the
  \<^verbatim>\<open>min\<close> validators and JSON do not tell them apart, and no handler divides by a
  value that may be zero.
\<close>

datatype number = Finite real | Infinity | MinusInfinity | NaN

definition pow2 :: "int \<Rightarrow> real" where
  "pow2 e = (if 0 \<le> e then 2 ^ nat e else 1 / 2 ^ nat (- e))"

definition pow10 :: "int \<Rightarrow> real" where
  "pow10 e = (if 0 \<le> e then 10 ^ nat e else 1 / 10 ^ nat (- e))"

text \<open>
  For a positive \<open>x\<close>, the integer \<open>e\<close> with \<open>b ^ e \<le> x < b ^ (e + 1)\<close>
  (\<open>floorlog b n\<close> is the number of digits of \<open>n\<close> in base \<open>b\<close>).
\<close>

definition ilog :: "nat \<Rightarrow> real \<Rightarrow> int" where
  "ilog b x =
     (if 1 \<le> x then int (floorlog b (nat \<lfloor>x\<rfloor>)) - 1
      else - int (floorlog b (nat (\<lceil>1 / x\<rceil> - 1))))"

text \<open>Rounding to the nearest integer, a tie to the even one.\<close>

definition round_even :: "real \<Rightarrow> int" where
  "round_even y =
     (let f = \<lfloor>y\<rfloor>; d = y - of_int f
      in if d < 1 / 2 then f else if 1 / 2 < d then f + 1
         else if even f then f else f + 1)"

text \<open>
  The double nearest to a positive real: 53 significant bits, the exponent of a
  normal double at least \<open>- 1022\<close> (below it the spacing stays \<open>2 ^ - 1074\<close>), and
  \<^verbatim>\<open>Infinity\<close> from \<open>2 ^ 1024\<close> on.
\<close>

definition round_positive :: "real \<Rightarrow> number" where
  "round_positive x =
     (let e = max (ilog 2 x) (- 1022);
          ulp = pow2 (e - 52);
          r = of_int (round_even (x / ulp)) * ulp
      in if 2 ^ 1024 \<le> r then Infinity else Finite r)"

fun negate :: "number \<Rightarrow> number" where
  "negate (Finite x) = Finite (- x)"
| "negate Infinity = MinusInfinity"
| "negate MinusInfinity = Infinity"
| "negate NaN = NaN"

definition to_double :: "real \<Rightarrow> number" where
  "to_double x =
     (if x = 0 then Finite 0
      else if 0 < x then round_positive x
      else negate (round_positive (- x)))"

text \<open>The sign of a number that is not \<^verbatim>\<open>NaN\<close>.\<close>

fun signum :: "number \<Rightarrow> int" where
  "signum (Finite x) = (if x < 0 then - 1 else if x = 0 then 0 else 1)"
| "signum Infinity = 1"
| "signum MinusInfinity = - 1"
| "signum NaN = 0"

text \<open>\<^verbatim>\<open>a * b\<close>.\<close>

definition times :: "number \<Rightarrow> number \<Rightarrow> number" where
  "times a b =
     (case (a, b) of
        (Finite x, Finite y) \<Rightarrow> to_double (x * y)
      | _ \<Rightarrow> if a = NaN \<or> b = NaN \<or> signum a * signum b = 0 then NaN
             else if 0 < signum a * signum b then Infinity else MinusInfinity)"

text \<open>\<^verbatim>\<open>a + b\<close> of two numbers.\<close>

definition plus :: "number \<Rightarrow> number \<Rightarrow> number" where
  "plus a b =
     (case (a, b) of
        (Finite x, Finite y) \<Rightarrow> to_double (x + y)
      | (Finite x, _) \<Rightarrow> b
      | (_, Finite y) \<Rightarrow> a
      | _ \<Rightarrow> if a = b then a else NaN)"

text \<open>\<^verbatim>\<open>p / 100\<close>.\<close>

definition hundredth :: "number \<Rightarrow> number" where
  "hundredth p = (case p of Finite x \<Rightarrow> to_double (x / 100) | _ \<Rightarrow> p)"

text \<open>
  The order of the numbers, for \<^verbatim>\<open>a <= b\<close> and \<^verbatim>\<open>a < b\<close> (false when one side
  is \<^verbatim>\<open>NaN\<close>), for the query operator \<^verbatim>\<open>$lte\<close> and for \<^verbatim>\<open>sort\<close>.
\<close>

fun rank :: "number \<Rightarrow> int \<times> real" where
  "rank (Finite x) = (0, x)"
| "rank Infinity = (1, 0)"
| "rank MinusInfinity = (- 1, 0)"
| "rank NaN = (- 2, 0)"

definition num_le :: "number \<Rightarrow> number \<Rightarrow> bool" where
  "num_le a b \<longleftrightarrow> a \<noteq> NaN \<and> b \<noteq> NaN \<and> rank a \<le> rank b"

definition num_less :: "number \<Rightarrow> number \<Rightarrow> bool" where
  "num_less a b \<longleftrightarrow> a \<noteq> NaN \<and> b \<noteq> NaN \<and> rank a < rank b"

section \<open>JavaScript strings\<close>

text \<open>
  A string is a sequence of UTF-16 code units; \<open>str\<close> gives the string of a
  literal of the source.
\<close>

type_synonym jstring = "16 word list"

definition str :: "string \<Rightarrow> jstring" where
  "str s = map of_char s"

text \<open>
  The code units that \<^verbatim>\<open>String.prototype.trim\<close>, \<^verbatim>\<open>parseFloat\<close> and the
  conversion of a string to a number skip: \<^verbatim>\<open>WhiteSpace\<close> (tab, vertical tab, form
  feed, the byte order mark and the space separators of Unicode) and
  \<^verbatim>\<open>LineTerminator\<close>.
\<close>

definition is_ws :: "16 word \<Rightarrow> bool" where
  "is_ws c \<longleftrightarrow>
     c \<in> set [0x0009, 0x000A, 0x000B, 0x000C, 0x000D, 0x0020, 0x00A0, 0x1680,
               0x2000, 0x2001, 0x2002, 0x2003, 0x2004, 0x2005, 0x2006, 0x2007, 0x2008,
               0x2009, 0x200A, 0x2028, 0x2029, 0x202F, 0x205F, 0x3000, 0xFEFF]"

text \<open>\<^verbatim>\<open>String.prototype.trim\<close>.\<close>

definition js_trim :: "jstring \<Rightarrow> jstring" where
  "js_trim s = rev (dropWhile is_ws (rev (dropWhile is_ws s)))"

text \<open>The decimal digits \<^verbatim>\<open>0\<close> to \<^verbatim>\<open>9\<close>, which is what \<^verbatim>\<open>\d\<close> matches.\<close>

definition is_digit :: "16 word \<Rightarrow> bool" where
  "is_digit c \<longleftrightarrow> 0x30 \<le> c \<and> c \<le> 0x39"

definition digit_val :: "16 word \<Rightarrow> nat" where
  "digit_val c = unat c - 48"

definition digits_val :: "jstring \<Rightarrow> nat" where
  "digits_val ds = foldl (\<lambda>a c. 10 * a + digit_val c) 0 ds"

definition digit_char :: "nat \<Rightarrow> 16 word" where
  "digit_char n = of_nat (48 + n)"

fun nat_digits :: "nat \<Rightarrow> jstring" where
  "nat_digits n =
     (if n < 10 then [digit_char n] else nat_digits (n div 10) @ [digit_char (n mod 10)])"

declare nat_digits.simps [simp del]

text \<open>\<^verbatim>\<open>s.replace(/[^\d.-]/g, '')\<close>.\<close>

definition strip_non_numeric :: "jstring \<Rightarrow> jstring" where
  "strip_non_numeric s = filter (\<lambda>c. is_digit c \<or> c = 0x2E \<or> c = 0x2D) s"

subsection \<open>A number as a string\<close>

text \<open>
  \<^verbatim>\<open>Number::toString\<close> for a positive finite \<open>x\<close>: the integers \<open>s\<close> and \<open>n\<close> with
  the fewest digits \<open>k\<close> of \<open>s\<close> such that \<open>s * 10 ^ (n - k)\<close> has the double \<open>x\<close>.
  With \<open>k\<close> digits the two candidates for \<open>s\<close> enclose \<open>x / 10 ^ (n - k)\<close>; of two
  that fit, the nearer to \<open>x\<close> is taken. Seventeen digits identify every double.
\<close>

definition round_trips :: "real \<Rightarrow> int \<Rightarrow> int \<Rightarrow> bool" where
  "round_trips x c e \<longleftrightarrow> to_double (of_int c * pow10 e) = Finite x"

definition digits_at :: "real \<Rightarrow> nat \<Rightarrow> (int \<times> int) option" where
  "digits_at x k =
     (let e = ilog 10 x + 1 - int k;
          lo = \<lfloor>x / pow10 e\<rfloor>;
          hi = lo + 1;
          below = x - of_int lo * pow10 e;
          above = of_int hi * pow10 e - x
      in if round_trips x lo e \<and> round_trips x hi e
         then Some (if below < above then lo else if above < below then hi
                    else if even lo then lo else hi, e)
         else if round_trips x lo e then Some (lo, e)
         else if round_trips x hi e then Some (hi, e)
         else None)"

fun shortest_digits :: "real \<Rightarrow> nat \<Rightarrow> nat \<Rightarrow> int \<times> int" where
  "shortest_digits x 0 k =
     (\<lfloor>x / pow10 (ilog 10 x + 1 - int k)\<rfloor>, ilog 10 x + 1 - int k)"
| "shortest_digits x (Suc fuel) k =
     (case digits_at x k of
        Some r \<Rightarrow> r
      | None \<Rightarrow> shortest_digits x fuel (Suc k))"

definition shortest :: "real \<Rightarrow> int \<times> int" where
  "shortest x = shortest_digits x 17 (Suc 0)"

definition positive_toString :: "real \<Rightarrow> jstring" where
  "positive_toString x =
     (let (c, e) = shortest x;
          all = nat_digits (nat c);
          zeros = length (takeWhile (\<lambda>d. d = 0x30) (rev all));
          ds = take (length all - zeros) all;
          k = int (length ds);
          n = e + int zeros + k
      in if k \<le> n \<and> n \<le> 21 then ds @ replicate (nat (n - k)) 0x30
         else if 0 < n \<and> n \<le> 21 then take (nat n) ds @ [0x2E] @ drop (nat n) ds
         else if - 6 < n \<and> n \<le> 0 then [0x30, 0x2E] @ replicate (nat (- n)) 0x30 @ ds
         else (let ex = (if n - 1 < 0 then [0x2D] else [0x2B]) @ nat_digits (nat \<bar>n - 1\<bar>)
               in if k = 1 then ds @ [0x65] @ ex
                  else [hd ds] @ [0x2E] @ tl ds @ [0x65] @ ex))"

definition num_toString :: "number \<Rightarrow> jstring" where
  "num_toString v =
     (case v of
        NaN \<Rightarrow> str ''NaN''
      | Infinity \<Rightarrow> str ''Infinity''
      | MinusInfinity \<Rightarrow> str ''-Infinity''
      | Finite x \<Rightarrow>
          if x = 0 then str ''0''
          else if x < 0 then 0x2D # positive_toString (- x)
          else positive_toString x)"

subsection \<open>A string as a number\<close>

text \<open>
  The decimal literal at the start of a string (\<^verbatim>\<open>StrDecimalLiteral\<close>): an optional
  sign, then \<^verbatim>\<open>Infinity\<close>, or digits with an optional fraction or a fraction alone
  and an optional exponent. The result is the double of the literal and the rest
  of the string.
\<close>

definition strip_sign :: "jstring \<Rightarrow> bool \<times> jstring" where
  "strip_sign s =
     (case s of
        [] \<Rightarrow> (False, [])
      | c # r \<Rightarrow> if c = 0x2D then (True, r) else if c = 0x2B then (False, r)
                 else (False, s))"

definition exponent_part :: "jstring \<Rightarrow> int \<times> jstring" where
  "exponent_part s =
     (case s of
        [] \<Rightarrow> (0, [])
      | c # r \<Rightarrow>
          if c = 0x65 \<or> c = 0x45 then
            (let (neg, u) = strip_sign r; ds = takeWhile is_digit u
             in if ds = [] then (0, s)
                else ((if neg then - 1 else 1) * int (digits_val ds), dropWhile is_digit u))
          else (0, s))"

definition decimal_literal :: "jstring \<Rightarrow> (number \<times> jstring) option" where
  "decimal_literal s =
     (let (neg, u) = strip_sign s
      in if take 8 u = str ''Infinity''
         then Some (if neg then MinusInfinity else Infinity, drop 8 u)
         else
           (let ip = takeWhile is_digit u;
                r1 = dropWhile is_digit u;
                (fp, r2) = (case r1 of
                              [] \<Rightarrow> ([], [])
                            | c # r \<Rightarrow> if c = 0x2E
                                       then (takeWhile is_digit r, dropWhile is_digit r)
                                       else ([], r1))
            in if ip = [] \<and> fp = [] then None
               else (let (e, r3) = exponent_part r2;
                         m = real (digits_val ip) + real (digits_val fp) / 10 ^ length fp
                     in Some (to_double ((if neg then - 1 else 1) * (m * pow10 e)), r3))))"

text \<open>\<^verbatim>\<open>parseFloat\<close> of a string.\<close>

definition parseFloat :: "jstring \<Rightarrow> number" where
  "parseFloat s =
     (case decimal_literal (dropWhile is_ws s) of None \<Rightarrow> NaN | Some (v, rest) \<Rightarrow> v)"

text \<open>
  The conversion of a string to a number (\<^verbatim>\<open>StringToNumber\<close>): the trimmed
  string is empty (0), a binary, octal or hexadecimal integer literal, or a decimal
  literal and nothing more; anything else is \<^verbatim>\<open>NaN\<close>.
\<close>

definition hex_val :: "16 word \<Rightarrow> nat" where
  "hex_val c =
     (if is_digit c then digit_val c
      else if 0x61 \<le> c \<and> c \<le> 0x66 then unat c - 87
      else if 0x41 \<le> c \<and> c \<le> 0x46 then unat c - 55
      else 16)"

definition radix_literal :: "jstring \<Rightarrow> number option" where
  "radix_literal s =
     (case s of
        z # x # ds \<Rightarrow>
          (let b = (if x = 0x78 \<or> x = 0x58 then 16 else if x = 0x6F \<or> x = 0x4F then 8
                    else if x = 0x62 \<or> x = 0x42 then 2 else (0::nat))
           in if z = 0x30 \<and> ds \<noteq> [] \<and> b \<noteq> 0 \<and> list_all (\<lambda>d. hex_val d < b) ds
              then Some (to_double (real (foldl (\<lambda>a d. b * a + hex_val d) 0 ds)))
              else None)
      | _ \<Rightarrow> None)"

definition string_to_number :: "jstring \<Rightarrow> number" where
  "string_to_number s =
     (let t = js_trim s
      in if t = [] then Finite 0
         else (case radix_literal t of
                 Some v \<Rightarrow> v
               | None \<Rightarrow> (case decimal_literal t of
                            Some (v, []) \<Rightarrow> v
                          | _ \<Rightarrow> NaN)))"

section \<open>JavaScript values\<close>

text \<open>
  A request body is the value \<^verbatim>\<open>express.json()\<close> parsed. An object is the list of
  its own properties (\<open>map_of\<close> reads one); \<open>JUndefined\<close> is an absent property. The
  properties the handlers read by name are \<^verbatim>\<open>order\<close>, \<^verbatim>\<open>event\<close>, \<^verbatim>\<open>id\<close>,
  \<^verbatim>\<open>order_number\<close>, \<^verbatim>\<open>number\<close>, \<^verbatim>\<open>name\<close>, \<^verbatim>\<open>total_price\<close>,
  \<^verbatim>\<open>current_total_price\<close>, \<^verbatim>\<open>discount_codes\<close>, \<^verbatim>\<open>created_at\<close>,
  \<^verbatim>\<open>processed_at\<close>, \<^verbatim>\<open>code\<close>, \<^verbatim>\<open>orderId\<close>, \<^verbatim>\<open>orderValue\<close>,
  \<^verbatim>\<open>couponCode\<close>, \<^verbatim>\<open>appliesTo\<close>, \<^verbatim>\<open>tiers\<close>, \<^verbatim>\<open>minSalesValue\<close>,
  \<^verbatim>\<open>maxSalesValue\<close>, \<^verbatim>\<open>commissionPercentage\<close>, \<^verbatim>\<open>length\<close> and \<^verbatim>\<open>0\<close>; none but
  the last two is a property that a parsed value inherits from a prototype.
\<close>

datatype json = JUndefined | JNull | JBool bool | JNum number | JStr jstring
  | JArr "json list" | JObj "(jstring \<times> json) list"

text \<open>Truthiness, as \<^verbatim>\<open>!x\<close>, \<^verbatim>\<open>x || y\<close> and \<^verbatim>\<open>if (x)\<close> test it.\<close>

fun truthy :: "json \<Rightarrow> bool" where
  "truthy JUndefined = False"
| "truthy JNull = False"
| "truthy (JBool b) = b"
| "truthy (JNum n) = (n \<noteq> Finite 0 \<and> n \<noteq> NaN)"
| "truthy (JStr s) = (s \<noteq> [])"
| "truthy (JArr xs) = True"
| "truthy (JObj kvs) = True"

definition js_or :: "json \<Rightarrow> json \<Rightarrow> json" where
  "js_or a b = (if truthy a then a else b)"

text \<open>
  Reading a named property of a value that is neither \<^verbatim>\<open>null\<close> nor
  \<^verbatim>\<open>undefined\<close>: only an object has the properties the handlers name.
\<close>

fun js_get :: "json \<Rightarrow> jstring \<Rightarrow> json" where
  "js_get (JObj kvs) k = (case map_of kvs k of Some v \<Rightarrow> v | None \<Rightarrow> JUndefined)"
| "js_get v k = JUndefined"

text \<open>Reading a property of any value: \<open>None\<close> is the TypeError on null and undefined.\<close>

definition member :: "json \<Rightarrow> jstring \<Rightarrow> json option" where
  "member v k = (if v = JUndefined \<or> v = JNull then None else Some (js_get v k))"

text \<open>\<^verbatim>\<open>x.length\<close> and \<^verbatim>\<open>x[0]\<close> of a value that is neither null nor undefined.\<close>

fun js_length :: "json \<Rightarrow> json" where
  "js_length (JArr xs) = JNum (Finite (real (length xs)))"
| "js_length (JStr s) = JNum (Finite (real (length s)))"
| "js_length (JObj kvs) = js_get (JObj kvs) (str ''length'')"
| "js_length v = JUndefined"

fun js_index0 :: "json \<Rightarrow> json" where
  "js_index0 (JArr xs) = (case xs of [] \<Rightarrow> JUndefined | x # _ \<Rightarrow> x)"
| "js_index0 (JStr s) = (case s of [] \<Rightarrow> JUndefined | c # _ \<Rightarrow> JStr [c])"
| "js_index0 (JObj kvs) = js_get (JObj kvs) (str ''0'')"
| "js_index0 v = JUndefined"

text \<open>
  \<^verbatim>\<open>typeof x === 'string'\<close>, \<^verbatim>\<open>Array.isArray(x)\<close>, \<^verbatim>\<open>typeof x === 'object'\<close>
  (which holds of \<^verbatim>\<open>null\<close> too) and \<^verbatim>\<open>typeof x === 'number'\<close>.
\<close>

fun typeof_string :: "json \<Rightarrow> bool" where
  "typeof_string (JStr s) = True"
| "typeof_string v = False"

fun isArray :: "json \<Rightarrow> bool" where
  "isArray (JArr xs) = True"
| "isArray v = False"

fun typeof_object :: "json \<Rightarrow> bool" where
  "typeof_object JNull = True"
| "typeof_object (JArr xs) = True"
| "typeof_object (JObj kvs) = True"
| "typeof_object v = False"

fun typeof_number :: "json \<Rightarrow> bool" where
  "typeof_number (JNum n) = True"
| "typeof_number v = False"

text \<open>
  The method call \<^verbatim>\<open>x.toString()\<close>; \<open>None\<close> is a TypeError. A parsed value holds
  no function: an own property \<^verbatim>\<open>toString\<close> of an object hides the inherited
  method and cannot be called. An array joins the strings of its elements, the
  empty string for \<^verbatim>\<open>null\<close> and \<^verbatim>\<open>undefined\<close>.
\<close>

fun js_toString :: "json \<Rightarrow> jstring option"
  and js_join :: "json list \<Rightarrow> jstring option" where
  "js_toString JUndefined = None"
| "js_toString JNull = None"
| "js_toString (JBool b) = Some (if b then str ''true'' else str ''false'')"
| "js_toString (JNum n) = Some (num_toString n)"
| "js_toString (JStr s) = Some s"
| "js_toString (JArr xs) = js_join xs"
| "js_toString (JObj kvs) =
     (if str ''toString'' \<in> fst ` set kvs then None else Some (str ''[object Object]''))"
| "js_join [] = Some []"
| "js_join (x # xs) =
     (case (if x = JUndefined \<or> x = JNull then Some [] else js_toString x) of
        None \<Rightarrow> None
      | Some s \<Rightarrow>
          (if xs = [] then Some s
           else (case js_join xs of None \<Rightarrow> None | Some r \<Rightarrow> Some (s @ str '','' @ r))))"

text \<open>
  The conversion to a string that a template literal and \<^verbatim>\<open>parseFloat\<close> apply
  (\<^verbatim>\<open>ToString\<close>). For an object it asks \<^verbatim>\<open>toString\<close> and then \<^verbatim>\<open>valueOf\<close>; the
  inherited \<^verbatim>\<open>valueOf\<close> returns the object itself, so the conversion throws exactly
  when the method call does.
\<close>

definition js_String :: "json \<Rightarrow> jstring option" where
  "js_String v =
     (if v = JUndefined then Some (str ''undefined'')
      else if v = JNull then Some (str ''null'')
      else js_toString v)"

text \<open>The conversion to a number (\<^verbatim>\<open>ToNumber\<close>); \<open>None\<close> is a TypeError.\<close>

fun js_Number :: "json \<Rightarrow> number option" where
  "js_Number JUndefined = Some NaN"
| "js_Number JNull = Some (Finite 0)"
| "js_Number (JBool b) = Some (Finite (if b then 1 else 0))"
| "js_Number (JNum n) = Some n"
| "js_Number (JStr s) = Some (string_to_number s)"
| "js_Number (JArr xs) = map_option string_to_number (js_join xs)"
| "js_Number (JObj kvs) = (if str ''toString'' \<in> fst ` set kvs then None else Some NaN)"

text \<open>The global \<^verbatim>\<open>isNaN\<close>.\<close>

definition js_isNaN :: "json \<Rightarrow> bool option" where
  "js_isNaN v = map_option (\<lambda>n. n = NaN) (js_Number v)"

section \<open>Mongoose casts\<close>

text \<open>
  What a schema type makes of a value given for a path of a new document: the path
  stays unset (null and undefined), it gets the cast value, or the cast fails,
  which validation reports as a ValidationError.
\<close>

datatype 'a cast = Absent | Cast 'a | CastFailure

text \<open>
  \<^verbatim>\<open>String\<close>: a string is kept; of an object with a string \<^verbatim>\<open>_id\<close> that is not
  empty the \<^verbatim>\<open>_id\<close> is taken; a number or boolean gives its \<^verbatim>\<open>toString()\<close>; an
  array and any other object fail (also when calling an own \<^verbatim>\<open>toString\<close> throws).
\<close>

fun castString :: "json \<Rightarrow> jstring cast" where
  "castString JUndefined = Absent"
| "castString JNull = Absent"
| "castString (JStr s) = Cast s"
| "castString (JNum n) = Cast (num_toString n)"
| "castString (JBool b) = Cast (if b then str ''true'' else str ''false'')"
| "castString (JArr xs) = CastFailure"
| "castString (JObj kvs) =
     (case map_of kvs (str ''_id'') of
        Some (JStr i) \<Rightarrow> if i \<noteq> [] then Cast i else CastFailure
      | _ \<Rightarrow> CastFailure)"

text \<open>
  \<^verbatim>\<open>Number\<close>: the empty string is null; a string or boolean is converted with
  \<^verbatim>\<open>Number(val)\<close>; \<^verbatim>\<open>NaN\<close>, arrays and objects fail.
\<close>

fun castNumber :: "json \<Rightarrow> number cast" where
  "castNumber JUndefined = Absent"
| "castNumber JNull = Absent"
| "castNumber (JStr s) =
     (if s = [] then Absent
      else if string_to_number s = NaN then CastFailure else Cast (string_to_number s))"
| "castNumber (JBool b) = Cast (Finite (if b then 1 else 0))"
| "castNumber (JNum n) = (if n = NaN then CastFailure else Cast n)"
| "castNumber (JArr xs) = CastFailure"
| "castNumber (JObj kvs) = CastFailure"

text \<open>
  The value of a query filter on a \<^verbatim>\<open>String\<close> path when it is a string, a number
  or a boolean; every other value is left to \<open>user_filter\<close> and \<open>sale_filter\<close> of
  the environment below.
\<close>

fun query_string :: "json \<Rightarrow> jstring option" where
  "query_string (JStr s) = Some s"
| "query_string (JNum n) = Some (num_toString n)"
| "query_string (JBool b) = Some (if b then str ''true'' else str ''false'')"
| "query_string v = None"

section \<open>Data model\<close>

text \<open>
  The embedding follows the TypeScript sources: the Mongoose schemas
  (\<^verbatim>\<open>models/CommissionTier\<close>, \<^verbatim>\<open>models/Sale\<close>, \<^verbatim>\<open>models/User\<close>,
  \<^verbatim>\<open>models/CommissionPayment\<close>), the commission service
  (\<^verbatim>\<open>services/commissionService\<close>), the webhook controller and the commission
  controller. A collection is the list of its documents in natural (insertion) order.
\<close>

datatype role = Influencer | Manager

text \<open>The errors a handler throws.\<close>

datatype err = TypeError | CastError | ValidationError | DuplicateKey
  | MissingOrder | IncompleteData | InfluencerNotFound
  | InvalidAppliesTo | TiersNotArray | TierIncomplete | TierNotNumeric | TierMaxNotAboveMin
  | PersistenceError

text \<open>\<^verbatim>\<open>ICommissionTier\<close>: \<^verbatim>\<open>maxSalesValue\<close> is optional.\<close>

record commission_tier =
  tier_name :: jstring
  minSalesValue :: number
  maxSalesValue :: "number option"
  commissionPercentage :: number
  appliesTo :: role
  isActive :: bool

subsection \<open>Commission tier resolver\<close>

text \<open>
  \<^verbatim>\<open>CommissionTier.find({appliesTo: role, isActive: true, minSalesValue: {$lte: saleValue}})
   .sort({minSalesValue: -1})\<close>:
  the filter, then a sort on descending \<^verbatim>\<open>minSalesValue\<close>. MongoDB leaves the order
  of equal keys open; the model keeps them in collection order.
\<close>

definition descending :: "number \<Rightarrow> int \<times> real" where
  "descending a = (- fst (rank a), - snd (rank a))"

definition find_tiers :: "commission_tier list \<Rightarrow> role \<Rightarrow> number \<Rightarrow> commission_tier list" where
  "find_tiers coll r saleValue =
     sort_key (\<lambda>t. descending (minSalesValue t))
       (filter (\<lambda>t. appliesTo t = r \<and> isActive t = True \<and> num_le (minSalesValue t) saleValue)
          coll)"

text \<open>
  \<^verbatim>\<open>calculateCommissionForSale\<close> of the commission service. The query casts the
  sale value to the type of \<^verbatim>\<open>minSalesValue\<close>, which throws a CastError for
  \<^verbatim>\<open>NaN\<close>. The result is \<^verbatim>\<open>saleValue * (applicableTier.commissionPercentage / 100)\<close>:
  the quotient is rounded to a double, then the product is.
\<close>

definition calculateCommissionForSale ::
  "commission_tier list \<Rightarrow> number \<Rightarrow> role \<Rightarrow> err + number" where
  "calculateCommissionForSale coll saleValue r =
     (if saleValue = NaN then Inl CastError
      else (case find_tiers coll r saleValue of
              [] \<Rightarrow> Inr (Finite 0)
            | applicableTier # _ \<Rightarrow>
                Inr (times saleValue (hundredth (commissionPercentage applicableTier)))))"

text \<open>\<^verbatim>\<open>calculateCommission\<close> of the webhook controller (a copy of the former).\<close>

definition calculateCommission ::
  "commission_tier list \<Rightarrow> number \<Rightarrow> role \<Rightarrow> err + number" where
  "calculateCommission coll saleValue r =
     (if saleValue = NaN then Inl CastError
      else (case find_tiers coll r saleValue of
              [] \<Rightarrow> Inr (Finite 0)
            | applicableTier # _ \<Rightarrow>
                Inr (times saleValue (hundredth (commissionPercentage applicableTier)))))"

text \<open>
  The words of the specification: a tier qualifies for a role and a sale value when it
  is active, applies to the role and its lower bound does not exceed the value.
\<close>

definition qualifies :: "role \<Rightarrow> number \<Rightarrow> commission_tier \<Rightarrow> bool" where
  "qualifies r saleValue t \<longleftrightarrow>
     isActive t \<and> appliesTo t = r \<and> num_le (minSalesValue t) saleValue"

text \<open>The tier table used as the example of the specification.\<close>

definition example_tiers :: "commission_tier list" where
  "example_tiers =
    [\<lparr>tier_name = str ''Faixa 1'', minSalesValue = Finite 0, maxSalesValue = Some (Finite 1000),
      commissionPercentage = Finite 10, appliesTo = Influencer, isActive = True\<rparr>,
     \<lparr>tier_name = str ''Faixa 2'', minSalesValue = to_double (100001 / 100),
      maxSalesValue = Some (Finite 5000),
      commissionPercentage = Finite 15, appliesTo = Influencer, isActive = True\<rparr>,
     \<lparr>tier_name = str ''Faixa 3'', minSalesValue = to_double (500001 / 100), maxSalesValue = None,
      commissionPercentage = Finite 20, appliesTo = Influencer, isActive = True\<rparr>]"

section \<open>Documents, collections and the request environment\<close>

text \<open>
  An \<^verbatim>\<open>ObjectId\<close> is a natural number. Of a user only the fields the commission
  pipeline reads are kept.
\<close>

record user =
  user_id :: nat
  user_name :: jstring
  user_manager :: "nat option"
  whatsappNumber :: "jstring option"
  tokenWhats :: "jstring option"
  couponCode :: "jstring option"

text \<open>\<^verbatim>\<open>ISale\<close>; a date is its time value in milliseconds.\<close>

record sale =
  sale_id :: nat
  influencer :: nat
  manager :: "nat option"
  orderId :: jstring
  saleValue :: number
  commissionCalculated :: bool
  influencerCommissionEarned :: "number option"
  managerCommissionEarned :: "number option"
  couponCodeUsed :: "jstring option"
  transactionDate :: int
  processedViaWebhook :: bool

datatype payment_status = Pending | Paid | Failed

text \<open>\<^verbatim>\<open>ICommissionPayment\<close>.\<close>

record commission_payment =
  payment_id :: nat
  pay_user :: nat
  roleAtPayment :: role
  pay_sales :: "nat list"
  totalSalesValue :: number
  commissionEarned :: number
  paymentPeriodStart :: int
  paymentPeriodEnd :: int
  calculationDate :: int
  pay_status :: payment_status

text \<open>
  The database, and with it what left the process: \<open>outbox\<close> lists the WhatsApp
  messages handed to the messaging service, as recipient number and sender token
  (the text of a message is not modelled). \<open>next_id\<close> is the next fresh
  \<^verbatim>\<open>ObjectId\<close>.
\<close>

record db =
  users :: "user list"
  sales :: "sale list"
  tiers :: "commission_tier list"
  payments :: "commission_payment list"
  outbox :: "(jstring \<times> jstring) list"
  next_id :: nat

text \<open>What a handler answers.\<close>

datatype body =
    AlreadyProcessed nat
  | NoCoupon
  | NoInfluencer jstring
  | SaleRegistered nat nat "nat option" number number
  | TiersSaved "commission_tier list"
  | ErrorMessage err

record response =
  status :: nat
  body :: body

text \<open>
  The answer to a thrown error, which \<^verbatim>\<open>next(error)\<close> or \<^verbatim>\<open>asyncHandler\<close> hands
  on: a status still at 200 becomes 500, a status set before the throw is kept. This
  is \<^verbatim>\<open>errorHandler\<close> of the error middleware; \<^verbatim>\<open>server.ts\<close> leaves it unmounted,
  and the error handler of Express that answers then picks the same status.
\<close>

definition errorHandler :: "nat \<Rightarrow> err \<Rightarrow> response" where
  "errorHandler statusCode e =
     \<lparr>status = (if statusCode = 200 then 500 else statusCode), body = ErrorMessage e\<rparr>"

text \<open>
  What a request reads beside the database. \<open>now\<close> is \<^verbatim>\<open>Date.now()\<close>;
  \<open>js_Date\<close> is the \<^verbatim>\<open>Date\<close> constructor on a truthy value (an error when the
  conversion of the value throws, \<open>None\<close> for an invalid date); \<open>user_filter\<close> and
  \<open>sale_filter\<close> are what Mongoose and MongoDB make of a query filter on a string path
  whose value is no string, number or boolean (an undefined value, an array, an
  object of operators); \<open>formatCurrency\<close> is
  \<^verbatim>\<open>toLocaleString('pt-BR', {style: 'currency', currency: 'BRL'})\<close>.
\<close>

record env =
  now :: int
  js_Date :: "json \<Rightarrow> err + int option"
  user_filter :: "user list \<Rightarrow> json \<Rightarrow> err + user option"
  sale_filter :: "sale list \<Rightarrow> json \<Rightarrow> err + sale option"
  formatCurrency :: "number \<Rightarrow> jstring"

subsection \<open>Queries\<close>

text \<open>\<^verbatim>\<open>Sale.findOne({orderId: key})\<close> for a string.\<close>

definition Sale_findOne_orderId :: "sale list \<Rightarrow> jstring \<Rightarrow> sale option" where
  "Sale_findOne_orderId coll key = find (\<lambda>s. orderId s = key) coll"

text \<open>\<^verbatim>\<open>Sale.findOne({orderId})\<close> for the raw value of the generic webhook.\<close>

definition Sale_findOne_raw :: "env \<Rightarrow> sale list \<Rightarrow> json \<Rightarrow> err + sale option" where
  "Sale_findOne_raw e coll v =
     (case query_string v of
        Some key \<Rightarrow> Inr (Sale_findOne_orderId coll key)
      | None \<Rightarrow> sale_filter e coll v)"

text \<open>\<^verbatim>\<open>User.findOne({couponCode})\<close>.\<close>

definition User_findOne_couponCode :: "env \<Rightarrow> user list \<Rightarrow> json \<Rightarrow> err + user option" where
  "User_findOne_couponCode e coll v =
     (case query_string v of
        Some code \<Rightarrow> Inr (find (\<lambda>u. couponCode u = Some code) coll)
      | None \<Rightarrow> user_filter e coll v)"

text \<open>\<^verbatim>\<open>User.findById(id)\<close>.\<close>

definition User_findById :: "user list \<Rightarrow> nat \<Rightarrow> user option" where
  "User_findById coll i = find (\<lambda>u. user_id u = i) coll"

text \<open>
  The document that \<^verbatim>\<open>Sale.create\<close> builds from the values given for its paths,
  \<open>None\<close> when the document fails validation: a cast fails (\<^verbatim>\<open>NaN\<close> for a
  commission, an invalid date), a required path is unset, \<^verbatim>\<open>orderId\<close> is the empty
  string, or \<^verbatim>\<open>saleValue\<close> is below its \<^verbatim>\<open>min\<close> of 0. \<^verbatim>\<open>couponCodeUsed\<close> is
  optional.
\<close>

definition Sale_document ::
  "nat \<Rightarrow> nat option \<Rightarrow> jstring cast \<Rightarrow> number cast \<Rightarrow> number \<Rightarrow> number \<Rightarrow> jstring cast
     \<Rightarrow> int option \<Rightarrow> sale option" where
  "Sale_document influencerId managerId key v influencerCommission managerCommission used date =
     (case (key, v, date) of
        (Cast k, Cast val, Some t) \<Rightarrow>
          if k = [] \<or> num_less val (Finite 0) \<or> val = NaN \<or> influencerCommission = NaN
             \<or> managerCommission = NaN \<or> used = CastFailure
          then None
          else Some \<lparr>sale_id = 0, influencer = influencerId, manager = managerId, orderId = k,
                     saleValue = val, commissionCalculated = True,
                     influencerCommissionEarned = Some influencerCommission,
                     managerCommissionEarned = Some managerCommission,
                     couponCodeUsed = (case used of Cast c \<Rightarrow> Some c | _ \<Rightarrow> None),
                     transactionDate = t, processedViaWebhook = True\<rparr>
      | _ \<Rightarrow> None)"

text \<open>
  \<^verbatim>\<open>Sale.create(doc)\<close>: Mongoose validates first; the unique index on
  \<^verbatim>\<open>orderId\<close> then refuses a second row with the same key.
\<close>

definition Sale_create :: "db \<Rightarrow> sale option \<Rightarrow> err + (sale \<times> db)" where
  "Sale_create d doc =
     (case doc of
        None \<Rightarrow> Inl ValidationError
      | Some new \<Rightarrow>
          if \<exists>s\<in>set (sales d). orderId s = orderId new then Inl DuplicateKey
          else (let newSale = new\<lparr>sale_id := next_id d\<rparr>
                in Inr (newSale, d\<lparr>sales := sales d @ [newSale], next_id := next_id d + 1\<rparr>)))"

section \<open>Webhook controller\<close>

text \<open>\<^verbatim>\<open>new Date(created || Date.now())\<close>.\<close>

definition new_Date :: "env \<Rightarrow> json \<Rightarrow> err + int option" where
  "new_Date e created = (if truthy created then js_Date e created else Inr (Some (now e)))"

text \<open>
  The notification step the three handlers share: a message goes out when the
  influencer has a WhatsApp number and the manager has a token; \<open>renders\<close> is false
  when building the text throws. A failure to send is caught and logged.
\<close>

definition notify_new_sale :: "db \<Rightarrow> user \<Rightarrow> bool \<Rightarrow> db" where
  "notify_new_sale d infl renders =
     (case whatsappNumber infl of
        None \<Rightarrow> d
      | Some number \<Rightarrow>
          if number = [] then d
          else (case user_manager infl of
                  None \<Rightarrow> d
                | Some mid \<Rightarrow>
                    (case User_findById (users d) mid of
                       None \<Rightarrow> d
                     | Some mgr \<Rightarrow>
                         (case tokenWhats mgr of
                            None \<Rightarrow> d
                          | Some token \<Rightarrow>
                              if token \<noteq> [] \<and> renders
                              then d\<lparr>outbox := outbox d @ [(number, token)]\<rparr>
                              else d))))"

text \<open>\<^verbatim>\<open>influencer.manager ? await User.findById(influencer.manager) : null\<close>.\<close>

definition influencer_manager :: "db \<Rightarrow> user \<Rightarrow> user option" where
  "influencer_manager d infl =
     (case user_manager infl of
        None \<Rightarrow> None
      | Some mid \<Rightarrow> User_findById (users d) mid)"

text \<open>\<^verbatim>\<open>manager ? await calculateCommission(orderValue, 'manager') : 0\<close>.\<close>

definition manager_commission :: "db \<Rightarrow> user \<Rightarrow> number \<Rightarrow> err + number" where
  "manager_commission d infl v =
     (if influencer_manager d infl \<noteq> None then calculateCommission (tiers d) v Manager
      else Inr (Finite 0))"

text \<open>
  The steps the three handlers repeat once the influencer is found: the order value
  (an error when its conversion throws), the two commissions, the date,
  \<^verbatim>\<open>Sale.create\<close>, the notification, the 201 answer. \<open>key\<close> and \<open>code\<close> are what
  the schema makes of the order id and of the coupon code. \<open>concurrent\<close> is what
  other requests wrote between this request's duplicate check and its insert (the
  identity when the request runs alone).
\<close>

definition register_sale ::
  "(db \<Rightarrow> db) \<Rightarrow> db \<Rightarrow> user \<Rightarrow> err + number \<Rightarrow> jstring cast \<Rightarrow> jstring cast
     \<Rightarrow> err + int option \<Rightarrow> bool \<Rightarrow> response \<times> db" where
  "register_sale concurrent d infl orderValue key code date renders =
     (case orderValue of
        Inl x \<Rightarrow> (errorHandler 200 x, d)
      | Inr v \<Rightarrow>
          (case calculateCommission (tiers d) v Influencer of
             Inl x \<Rightarrow> (errorHandler 200 x, d)
           | Inr influencerCommission \<Rightarrow>
               (case manager_commission d infl v of
                  Inl x \<Rightarrow> (errorHandler 200 x, d)
                | Inr managerCommission \<Rightarrow>
                    (case date of
                       Inl x \<Rightarrow> (errorHandler 200 x, d)
                     | Inr t \<Rightarrow>
                         (case Sale_create (concurrent d)
                                 (Sale_document (user_id infl)
                                    (map_option user_id (influencer_manager d infl)) key (Cast v)
                                    influencerCommission managerCommission code t) of
                            Inl x \<Rightarrow> (errorHandler 200 x, concurrent d)
                          | Inr (newSale, d2) \<Rightarrow>
                              (\<lparr>status = 201,
                                body = SaleRegistered (sale_id newSale) (user_id infl)
                                         (map_option user_id (influencer_manager d infl))
                                         influencerCommission managerCommission\<rparr>,
                               notify_new_sale d2 infl renders))))))"

text \<open>\<^verbatim>\<open>parseFloat(x)\<close>: the string of \<open>x\<close> is parsed.\<close>

definition parseFloat_of :: "json \<Rightarrow> err + number" where
  "parseFloat_of v = (case js_String v of None \<Rightarrow> Inl TypeError | Some s \<Rightarrow> Inr (parseFloat s))"

text \<open>\<^verbatim>\<open>parseFloat(x.toString())\<close>.\<close>

definition parseFloat_toString :: "json \<Rightarrow> err + number" where
  "parseFloat_toString v =
     (case js_toString v of None \<Rightarrow> Inl TypeError | Some s \<Rightarrow> Inr (parseFloat s))"

subsection \<open>Shopify\<close>

text \<open>\<^verbatim>\<open>shopifyOrderId || orderNumber || orderName\<close> of the order object.\<close>

definition shopify_id :: "json \<Rightarrow> json" where
  "shopify_id order =
     js_or (js_or (js_get order (str ''id'')) (js_get order (str ''order_number'')))
       (js_get order (str ''name''))"

text \<open>
  Lines 35 to 65 of \<^verbatim>\<open>processShopifyWebhook\<close>: the order object, the log line
  that writes the order id into a template (and throws when the id has no string),
  the order id and the total.
\<close>

definition shopify_normalize :: "json \<Rightarrow> response + (json \<times> json \<times> json \<times> json)" where
  "shopify_normalize reqBody =
     (case member reqBody (str ''order'') of
        None \<Rightarrow> Inl (errorHandler 200 TypeError)
      | Some order \<Rightarrow>
          if \<not> truthy order then Inl (errorHandler 400 MissingOrder)
          else
            (let totalPrice = js_get order (str ''total_price'');
                 currentTotalPrice = js_get order (str ''current_total_price'');
                 discount_codes = js_get order (str ''discount_codes'');
                 orderCreatedAt = js_get order (str ''created_at'');
                 finalOrderId = shopify_id order;
                 finalTotalPrice = js_or totalPrice currentTotalPrice
             in if js_String (shopify_id order) = None then Inl (errorHandler 200 TypeError)
                else if \<not> truthy finalOrderId \<or> \<not> truthy finalTotalPrice
                then Inl (errorHandler 400 IncompleteData)
                else Inr (finalOrderId, finalTotalPrice, discount_codes, orderCreatedAt)))"

text \<open>
  The answer when no user has the coupon: its message writes the coupon code into a
  template.
\<close>

definition no_influencer :: "nat \<Rightarrow> json \<Rightarrow> response" where
  "no_influencer statusCode code =
     (case js_String code of
        None \<Rightarrow> errorHandler statusCode TypeError
      | Some text \<Rightarrow>
          if statusCode = 200 then \<lparr>status = 200, body = NoInfluencer text\<rparr>
          else errorHandler statusCode InfluencerNotFound)"

definition processShopifyWebhook_at :: "(db \<Rightarrow> db) \<Rightarrow> env \<Rightarrow> db \<Rightarrow> json \<Rightarrow> response \<times> db" where
  "processShopifyWebhook_at concurrent e d reqBody =
     (case shopify_normalize reqBody of
        Inl r \<Rightarrow> (r, d)
      | Inr (finalOrderId, finalTotalPrice, discount_codes, orderCreatedAt) \<Rightarrow>
          (case js_toString finalOrderId of
             None \<Rightarrow> (errorHandler 200 TypeError, d)
           | Some key \<Rightarrow>
               (case Sale_findOne_orderId (sales d) key of
                  Some existingSale \<Rightarrow>
                    (\<lparr>status = 200, body = AlreadyProcessed (sale_id existingSale)\<rparr>, d)
                | None \<Rightarrow>
                    if \<not> truthy discount_codes \<or> js_length discount_codes = JNum (Finite 0)
                    then (\<lparr>status = 200, body = NoCoupon\<rparr>, d)
                    else
                      (case member (js_index0 discount_codes) (str ''code'') of
                         None \<Rightarrow> (errorHandler 200 TypeError, d)
                       | Some code \<Rightarrow>
                           (case User_findOne_couponCode e (users d) code of
                              Inl x \<Rightarrow> (errorHandler 200 x, d)
                            | Inr None \<Rightarrow> (no_influencer 200 code, d)
                            | Inr (Some infl) \<Rightarrow>
                                register_sale concurrent d infl (parseFloat_of finalTotalPrice)
                                  (Cast key) (castString code) (new_Date e orderCreatedAt)
                                  True)))))"

definition processShopifyWebhook :: "env \<Rightarrow> db \<Rightarrow> json \<Rightarrow> response \<times> db" where
  "processShopifyWebhook = processShopifyWebhook_at (\<lambda>d. d)"

subsection \<open>CartPanda\<close>

text \<open>
  Lines 229 to 232: a string total loses every character that is no digit, dot
  or minus and is parsed.
\<close>

definition cartpanda_total :: "json \<Rightarrow> json" where
  "cartpanda_total totalPrice =
     (case totalPrice of
        JStr s \<Rightarrow> JNum (parseFloat (strip_non_numeric s))
      | _ \<Rightarrow> totalPrice)"

text \<open>
  \<^verbatim>\<open>cartPandaOrderId || orderNumber || orderNumber2 || orderName\<close> of the order
  object.
\<close>

definition cartpanda_id :: "json \<Rightarrow> json" where
  "cartpanda_id order =
     js_or (js_or (js_or (js_get order (str ''id'')) (js_get order (str ''order_number'')))
              (js_get order (str ''number'')))
       (js_get order (str ''name''))"

text \<open>
  Lines 203 to 238 of \<^verbatim>\<open>processCartPandaWebhook\<close>: the order object and the
  event, the log line that writes the order id into a template, the total, the
  order id and \<^verbatim>\<open>isNaN\<close> of the total (which throws when the total has no
  number).
\<close>

definition cartpanda_normalize :: "json \<Rightarrow> response + (json \<times> json \<times> json \<times> json)" where
  "cartpanda_normalize reqBody =
     (case member reqBody (str ''order'') of
        None \<Rightarrow> Inl (errorHandler 200 TypeError)
      | Some order \<Rightarrow>
          if \<not> truthy order \<or> js_get reqBody (str ''event'') \<noteq> JStr (str ''order.paid'')
          then Inl (errorHandler 400 MissingOrder)
          else
            (let totalPrice = js_get order (str ''total_price'');
                 discount_codes = js_get order (str ''discount_codes'');
                 orderCreatedAt = js_get order (str ''processed_at'');
                 orderCreatedAt2 = js_get order (str ''created_at'');
                 finalOrderId = cartpanda_id order;
                 finalTotalPrice = cartpanda_total totalPrice
             in if js_String (cartpanda_id order) = None then Inl (errorHandler 200 TypeError)
                else if \<not> truthy finalOrderId \<or> finalTotalPrice = JUndefined
                then Inl (errorHandler 400 IncompleteData)
                else
                  (case js_isNaN finalTotalPrice of
                     None \<Rightarrow> Inl (errorHandler 200 TypeError)
                   | Some True \<Rightarrow> Inl (errorHandler 400 IncompleteData)
                   | Some False \<Rightarrow>
                       Inr (finalOrderId, finalTotalPrice, discount_codes,
                            js_or orderCreatedAt orderCreatedAt2))))"

text \<open>
  Lines 251 to 268: the coupon code, \<^verbatim>\<open>null\<close> when none is found; \<open>None\<close> is
  the TypeError of \<^verbatim>\<open>null.code\<close>.
\<close>

definition cartpanda_coupon :: "json \<Rightarrow> json option" where
  "cartpanda_coupon discount_codes =
     (if truthy discount_codes then
        (if typeof_string discount_codes then
           (case discount_codes of JStr s \<Rightarrow> Some (JStr (js_trim s)) | _ \<Rightarrow> Some JNull)
         else if isArray discount_codes \<and> js_length discount_codes \<noteq> JNum (Finite 0) then
           (let first = js_index0 discount_codes
            in if typeof_object first \<and> member first (str ''code'') = None then None
               else if typeof_object first \<and> truthy (js_get first (str ''code''))
               then Some (js_get first (str ''code''))
               else if typeof_string first then Some first
               else Some JNull)
         else if typeof_object discount_codes \<and> truthy (js_get discount_codes (str ''code'')) then
           Some (js_get discount_codes (str ''code''))
         else Some JNull)
      else Some JNull)"

definition processCartPandaWebhook_at :: "(db \<Rightarrow> db) \<Rightarrow> env \<Rightarrow> db \<Rightarrow> json \<Rightarrow> response \<times> db" where
  "processCartPandaWebhook_at concurrent e d reqBody =
     (case cartpanda_normalize reqBody of
        Inl r \<Rightarrow> (r, d)
      | Inr (finalOrderId, finalTotalPrice, discount_codes, created) \<Rightarrow>
          (case js_toString finalOrderId of
             None \<Rightarrow> (errorHandler 200 TypeError, d)
           | Some key \<Rightarrow>
               (case Sale_findOne_orderId (sales d) key of
                  Some existingSale \<Rightarrow>
                    (\<lparr>status = 200, body = AlreadyProcessed (sale_id existingSale)\<rparr>, d)
                | None \<Rightarrow>
                    (case cartpanda_coupon discount_codes of
                       None \<Rightarrow> (errorHandler 200 TypeError, d)
                     | Some code \<Rightarrow>
                         if js_String code = None then (errorHandler 200 TypeError, d)
                         else if \<not> truthy code then (\<lparr>status = 200, body = NoCoupon\<rparr>, d)
                         else
                           (case User_findOne_couponCode e (users d) code of
                              Inl x \<Rightarrow> (errorHandler 200 x, d)
                            | Inr None \<Rightarrow> (no_influencer 200 code, d)
                            | Inr (Some infl) \<Rightarrow>
                                register_sale concurrent d infl
                                  (parseFloat_toString finalTotalPrice)
                                  (Cast key) (castString code) (new_Date e created) True)))))"

definition processCartPandaWebhook :: "env \<Rightarrow> db \<Rightarrow> json \<Rightarrow> response \<times> db" where
  "processCartPandaWebhook = processCartPandaWebhook_at (\<lambda>d. d)"

subsection \<open>The generic sale webhook\<close>

text \<open>Lines 389 to 400 of \<^verbatim>\<open>processSaleWebhook\<close>.\<close>

definition sale_normalize :: "json \<Rightarrow> response + (json \<times> json \<times> json)" where
  "sale_normalize reqBody =
     (case (member reqBody (str ''orderId''), member reqBody (str ''orderValue''),
            member reqBody (str ''couponCode'')) of
        (Some orderId', Some orderValue, Some code) \<Rightarrow>
          if \<not> truthy orderId' \<or> \<not> truthy orderValue \<or> \<not> truthy code
          then Inl (errorHandler 400 IncompleteData)
          else Inr (orderId', orderValue, code)
      | _ \<Rightarrow> Inl (errorHandler 200 TypeError))"

text \<open>
  The order value goes as it came into the tier query, which casts it with
  \<^verbatim>\<open>Number(val)\<close> or throws a CastError, into the product with the percentage, which
  converts it to the same number, and into the new document;
  \<^verbatim>\<open>orderValue.toFixed\<close> in the notification exists for a number only.
\<close>

definition generic_value :: "json \<Rightarrow> err + number" where
  "generic_value orderValue =
     (case castNumber orderValue of Cast v \<Rightarrow> Inr v | _ \<Rightarrow> Inl CastError)"

definition processSaleWebhook_at :: "(db \<Rightarrow> db) \<Rightarrow> env \<Rightarrow> db \<Rightarrow> json \<Rightarrow> response \<times> db" where
  "processSaleWebhook_at concurrent e d reqBody =
     (case sale_normalize reqBody of
        Inl r \<Rightarrow> (r, d)
      | Inr (orderId', orderValue, code) \<Rightarrow>
          (case Sale_findOne_raw e (sales d) orderId' of
             Inl x \<Rightarrow> (errorHandler 200 x, d)
           | Inr (Some existingSale) \<Rightarrow>
               (\<lparr>status = 200, body = AlreadyProcessed (sale_id existingSale)\<rparr>, d)
           | Inr None \<Rightarrow>
               (case User_findOne_couponCode e (users d) code of
                  Inl x \<Rightarrow> (errorHandler 200 x, d)
                | Inr None \<Rightarrow> (no_influencer 400 code, d)
                | Inr (Some infl) \<Rightarrow>
                    register_sale concurrent d infl (generic_value orderValue)
                      (castString orderId') (castString code) (Inr (Some (now e)))
                      (typeof_number orderValue))))"

definition processSaleWebhook :: "env \<Rightarrow> db \<Rightarrow> json \<Rightarrow> response \<times> db" where
  "processSaleWebhook = processSaleWebhook_at (\<lambda>d. d)"

text \<open>The routes of \<^verbatim>\<open>routes/webhookRoutes\<close>.\<close>

datatype source = Shopify | CartPanda | GenericSale

fun ingest_at :: "source \<Rightarrow> (db \<Rightarrow> db) \<Rightarrow> env \<Rightarrow> db \<Rightarrow> json \<Rightarrow> response \<times> db" where
  "ingest_at Shopify = processShopifyWebhook_at"
| "ingest_at CartPanda = processCartPandaWebhook_at"
| "ingest_at GenericSale = processSaleWebhook_at"

definition ingest :: "source \<Rightarrow> env \<Rightarrow> db \<Rightarrow> json \<Rightarrow> response \<times> db" where
  "ingest src = ingest_at src (\<lambda>d. d)"


section \<open>Commission service\<close>

subsection \<open>Pending commissions\<close>

text \<open>
  \<^verbatim>\<open>SaleModel.findByIdAndUpdate(id, update)\<close>: the document with that id is updated.
\<close>

fun findByIdAndUpdate :: "sale list \<Rightarrow> nat \<Rightarrow> (sale \<Rightarrow> sale) \<Rightarrow> sale list" where
  "findByIdAndUpdate [] i f = []"
| "findByIdAndUpdate (s # ss) i f =
     (if sale_id s = i then f s # ss else s # findByIdAndUpdate ss i f)"

text \<open>
  The loop of \<^verbatim>\<open>processPendingCommissions\<close> over the pending sales read at its
  start; the state of the loop is the collection and the three running totals. The
  update casts the two commissions and throws a CastError for \<^verbatim>\<open>NaN\<close>; an error
  ends the loop and leaves the updates made before it.
\<close>

fun processPending_loop ::
  "commission_tier list \<Rightarrow> sale list \<Rightarrow> sale list \<Rightarrow> nat \<times> number \<times> number
     \<Rightarrow> (err + nat \<times> number \<times> number) \<times> sale list" where
  "processPending_loop coll [] ss totals = (Inr totals, ss)"
| "processPending_loop coll (sale # rest) ss
     (totalProcessed, totalInfluencerCommission, totalManagerCommission) =
     (case calculateCommissionForSale coll (saleValue sale) Influencer of
        Inl x \<Rightarrow> (Inl x, ss)
      | Inr influencerCommission \<Rightarrow>
          (case (if manager sale \<noteq> None
                 then calculateCommissionForSale coll (saleValue sale) Manager
                 else Inr (Finite 0)) of
             Inl x \<Rightarrow> (Inl x, ss)
           | Inr managerCommission \<Rightarrow>
               if influencerCommission = NaN \<or> managerCommission = NaN then (Inl CastError, ss)
               else processPending_loop coll rest
                      (findByIdAndUpdate ss (sale_id sale)
                         (\<lambda>s. s\<lparr>commissionCalculated := True,
                                 influencerCommissionEarned := Some influencerCommission,
                                 managerCommissionEarned := Some managerCommission\<rparr>))
                      (totalProcessed + 1,
                       plus totalInfluencerCommission influencerCommission,
                       plus totalManagerCommission managerCommission)))"

definition processPendingCommissions :: "db \<Rightarrow> (err + nat \<times> number \<times> number) \<times> db" where
  "processPendingCommissions d =
     (let pendingSales = filter (\<lambda>s. commissionCalculated s = False) (sales d);
          (result, ss) = processPending_loop (tiers d) pendingSales (sales d)
                           (0, Finite 0, Finite 0)
      in (result, d\<lparr>sales := ss\<rparr>))"

subsection \<open>Payment generation\<close>

text \<open>The query \<^verbatim>\<open>transactionDate: {$gte: periodStart, $lte: periodEnd}\<close>.\<close>

definition in_period :: "int \<Rightarrow> int \<Rightarrow> sale \<Rightarrow> bool" where
  "in_period periodStart periodEnd s \<longleftrightarrow>
     periodStart \<le> transactionDate s \<and> transactionDate s \<le> periodEnd"

text \<open>
  A JavaScript \<^verbatim>\<open>Map\<close> from user ids to lists of sales, in insertion order:
  \<^verbatim>\<open>if (!map.has(k)) map.set(k, []); map.get(k).push(v)\<close>.
\<close>

fun map_push :: "nat \<Rightarrow> sale \<Rightarrow> (nat \<times> sale list) list \<Rightarrow> (nat \<times> sale list) list" where
  "map_push k v [] = [(k, [v])]"
| "map_push k v ((k', vs) # m) =
     (if k' = k then (k', vs @ [v]) # m else (k', vs) # map_push k v m)"

text \<open>
  \<^verbatim>\<open>populate\<close> replaces a reference by the user it names, or by \<^verbatim>\<open>null\<close> when no
  such user exists; \<^verbatim>\<open>sale.influencer?._id\<close> is then the id of that user or absent.
\<close>

definition populated_id :: "user list \<Rightarrow> nat option \<Rightarrow> nat option" where
  "populated_id us ref =
     (case ref of
        None \<Rightarrow> None
      | Some i \<Rightarrow> map_option user_id (User_findById us i))"

text \<open>The loop that fills \<^verbatim>\<open>influencerSalesMap\<close> and \<^verbatim>\<open>managerSalesMap\<close>.\<close>

fun group_sales ::
  "user list \<Rightarrow> sale list \<Rightarrow> (nat \<times> sale list) list \<times> (nat \<times> sale list) list
     \<Rightarrow> (nat \<times> sale list) list \<times> (nat \<times> sale list) list" where
  "group_sales us [] maps = maps"
| "group_sales us (sale # rest) (influencerSalesMap, managerSalesMap) =
     group_sales us rest
       ((case populated_id us (Some (influencer sale)) of
           None \<Rightarrow> influencerSalesMap
         | Some influencerId \<Rightarrow> map_push influencerId sale influencerSalesMap),
        (case populated_id us (manager sale) of
           None \<Rightarrow> managerSalesMap
         | Some managerId \<Rightarrow> map_push managerId sale managerSalesMap))"

text \<open>
  \<^verbatim>\<open>CommissionPayment.create(doc)\<close>: both sums are cast to numbers, which fails for
  \<^verbatim>\<open>NaN\<close>, and have \<^verbatim>\<open>min: 0\<close> in the schema.
\<close>

definition CommissionPayment_create ::
  "db \<Rightarrow> commission_payment \<Rightarrow> err + (commission_payment \<times> db)" where
  "CommissionPayment_create d doc =
     (if totalSalesValue doc = NaN \<or> commissionEarned doc = NaN
         \<or> num_less (totalSalesValue doc) (Finite 0) \<or> num_less (commissionEarned doc) (Finite 0)
      then Inl ValidationError
      else (let payment = doc\<lparr>payment_id := next_id d\<rparr>
            in Inr (payment, d\<lparr>payments := payments d @ [payment], next_id := next_id d + 1\<rparr>)))"

text \<open>
  The commission field of a sale that belongs to a role, with \<^verbatim>\<open>|| 0\<close>: 0 when the
  field is absent, 0 or \<^verbatim>\<open>NaN\<close>.
\<close>

definition role_commission :: "role \<Rightarrow> sale \<Rightarrow> number" where
  "role_commission r s =
     (case (case r of Influencer \<Rightarrow> influencerCommissionEarned s
                    | Manager \<Rightarrow> managerCommissionEarned s) of
        None \<Rightarrow> Finite 0
      | Some c \<Rightarrow> if c = NaN then Finite 0 else c)"

text \<open>
  The report to an influencer after the payment was created: sent when the
  influencer has a number and the manager a token.
\<close>

definition send_report :: "db \<Rightarrow> user \<Rightarrow> db" where
  "send_report d infl =
     (case whatsappNumber infl of
        None \<Rightarrow> d
      | Some number \<Rightarrow>
          if number = [] then d
          else (case user_manager infl of
                  None \<Rightarrow> d
                | Some mid \<Rightarrow>
                    (case User_findById (users d) mid of
                       None \<Rightarrow> d
                     | Some mgr \<Rightarrow>
                         (case tokenWhats mgr of
                            None \<Rightarrow> d
                          | Some token \<Rightarrow>
                              if token \<noteq> [] then d\<lparr>outbox := outbox d @ [(number, token)]\<rparr>
                              else d))))"

text \<open>
  The two loops over the entries of a map (lines 116 to 172 for influencers, 176 to
  197 for managers): the payments created so far and the database. An error of
  \<^verbatim>\<open>create\<close> ends the call and leaves what was written before it.
\<close>

fun create_payments ::
  "env \<Rightarrow> role \<Rightarrow> int \<Rightarrow> int \<Rightarrow> (nat \<times> sale list) list \<Rightarrow> commission_payment list \<Rightarrow> db
     \<Rightarrow> (err + commission_payment list) \<times> db" where
  "create_payments e r periodStart periodEnd [] created d = (Inr created, d)"
| "create_payments e r periodStart periodEnd ((userId, userSales) # rest) created d =
     (case User_findById (users d) userId of
        None \<Rightarrow> create_payments e r periodStart periodEnd rest created d
      | Some u \<Rightarrow>
          (let total = foldl (\<lambda>sum sale. plus sum (saleValue sale)) (Finite 0) userSales;
               totalCommission =
                 foldl (\<lambda>sum sale. plus sum (role_commission r sale)) (Finite 0) userSales
           in case CommissionPayment_create d
                     \<lparr>payment_id = 0, pay_user = userId, roleAtPayment = r,
                      pay_sales = map sale_id userSales, totalSalesValue = total,
                      commissionEarned = totalCommission, paymentPeriodStart = periodStart,
                      paymentPeriodEnd = periodEnd, calculationDate = now e,
                      pay_status = Pending\<rparr> of
                Inl x \<Rightarrow> (Inl x, d)
              | Inr (payment, d1) \<Rightarrow>
                  create_payments e r periodStart periodEnd rest (created @ [payment])
                    (if r = Influencer then send_report d1 u else d1)))"

text \<open>What \<^verbatim>\<open>generateCommissionPayments\<close> returns.\<close>

record generation_summary =
  totalSales :: nat
  influencerPayments :: nat
  managerPayments :: nat
  totalCommissionValue :: number

definition generateCommissionPayments ::
  "env \<Rightarrow> db \<Rightarrow> int \<Rightarrow> int \<Rightarrow> (err + generation_summary) \<times> db" where
  "generateCommissionPayments e d periodStart periodEnd =
     (let uncalculatedSales =
            length (filter (\<lambda>s. in_period periodStart periodEnd s \<and> commissionCalculated s = False)
                      (sales d))
      in case (if uncalculatedSales > 0 then processPendingCommissions d else (Inr (0, Finite 0, Finite 0), d)) of
           (Inl x, d1) \<Rightarrow> (Inl x, d1)
         | (Inr processed, d1) \<Rightarrow>
             (let found =
                    filter (\<lambda>s. in_period periodStart periodEnd s \<and> commissionCalculated s = True)
                      (sales d1);
                  (influencerSalesMap, managerSalesMap) = group_sales (users d1) found ([], [])
              in case create_payments e Influencer periodStart periodEnd influencerSalesMap [] d1 of
                   (Inl x, d2) \<Rightarrow> (Inl x, d2)
                 | (Inr forInfluencers, d2) \<Rightarrow>
                     (case create_payments e Manager periodStart periodEnd managerSalesMap [] d2 of
                        (Inl x, d3) \<Rightarrow> (Inl x, d3)
                      | (Inr forManagers, d3) \<Rightarrow>
                          (Inr \<lparr>totalSales = length found,
                                influencerPayments = length forInfluencers,
                                managerPayments = length forManagers,
                                totalCommissionValue =
                                  foldl (\<lambda>sum payment. plus sum (commissionEarned payment))
                                    (Finite 0) (forInfluencers @ forManagers)\<rparr>,
                           d3))))"

section \<open>Example data\<close>

text \<open>
  A manager with a token, an influencer with the coupon of the test scripts, the
  tier table of the specification and one tier for managers; the payloads follow
  \<^verbatim>\<open>scripts/testShopifyWebhook\<close> and \<^verbatim>\<open>scripts/testCartPandaWebhook\<close>. In the
  example environment every date is the instant 500, and a filter whose value is
  no string, number or boolean finds nothing.
\<close>

definition example_env :: env where
  "example_env =
     \<lparr>now = 1000, js_Date = (\<lambda>v. Inr (Some 500)), user_filter = (\<lambda>coll v. Inr None),
      sale_filter = (\<lambda>coll v. Inr None), formatCurrency = num_toString\<rparr>"

definition gestora :: user where
  "gestora =
     \<lparr>user_id = 7, user_name = str ''Gestora'', user_manager = None, whatsappNumber = None,
      tokenWhats = Some (str ''token-1''), couponCode = None\<rparr>"

definition antonio :: user where
  "antonio =
     \<lparr>user_id = 8, user_name = str ''Antonio'', user_manager = Some 7,
      whatsappNumber = Some (str ''5511999999999''), tokenWhats = None,
      couponCode = Some (str ''antonio10'')\<rparr>"

definition example_users :: "user list" where
  "example_users = [gestora, antonio]"

definition example_db :: db where
  "example_db =
     \<lparr>users = example_users, sales = [],
      tiers = example_tiers @
        [\<lparr>tier_name = str ''Gestores'', minSalesValue = Finite 0, maxSalesValue = None,
          commissionPercentage = Finite 5, appliesTo = Manager, isActive = True\<rparr>],
      payments = [], outbox = [], next_id = 100\<rparr>"






text \<open>The row that the example orders leave, under the key \<open>k\<close>.\<close>

definition example_sale :: "jstring \<Rightarrow> sale" where
  "example_sale k =
     \<lparr>sale_id = 100, influencer = 8, manager = Some 7, orderId = k,
      saleValue = Finite 150, commissionCalculated = True,
      influencerCommissionEarned = Some (Finite 15),
      managerCommissionEarned = Some (Finite (15 / 2)),
      couponCodeUsed = Some (str ''antonio10''),
      transactionDate = 500, processedViaWebhook = True\<rparr>"

text \<open>The example database after such an order was registered.\<close>

definition example_db_after :: "jstring \<Rightarrow> db" where
  "example_db_after k =
     example_db\<lparr>sales := [example_sale k], next_id := 101,
       outbox := [(str ''5511999999999'', str ''token-1'')]\<rparr>"

section \<open>Properties of numbers and strings\<close>

lemma Let_fraction:
  "Let (numeral a / numeral b :: real) f = f (numeral a / numeral b)"
  "Let (- (numeral a / numeral b) :: real) f = f (- (numeral a / numeral b))"
  "Let (1 / numeral b :: real) f = f (1 / numeral b)"
  by (simp_all add: Let_def)

lemmas double_eval = to_double_def round_positive_def ilog_def pow2_def pow10_def round_even_def
  Let_fraction compute_floorlog

lemma shortest_digits_numeral:
  "shortest_digits x (numeral n) k =
     (case digits_at x k of Some r \<Rightarrow> r | None \<Rightarrow> shortest_digits x (pred_numeral n) (Suc k))"
  by (simp add: numeral_eq_Suc)

lemma unat_of_char: "unat (of_char c :: 16 word) = of_char c"
proof -
  have "(of_char c :: 16 word) = word_of_nat (of_char c)"
    by (simp only: of_nat_of_char)
  moreover have "(of_char c :: nat) < 2 ^ LENGTH(16)"
    by (rule less_trans [OF nat_of_char_less_256]) simp
  ultimately show ?thesis
    by (simp only: unat_of_nat mod_less)
qed

lemma of_char_word_inject: "(of_char c :: 16 word) = of_char d \<longleftrightarrow> c = d"
proof
  assume "(of_char c :: 16 word) = of_char d"
  then have "unat (of_char c :: 16 word) = unat (of_char d :: 16 word)"
    by simp
  then have "(of_char c :: nat) = of_char d"
    by (simp only: unat_of_char)
  then show "c = d"
    by simp
qed simp

lemma str_inject [simp]: "str a = str b \<longleftrightarrow> a = b"
proof
  assume "str a = str b"
  then show "a = b"
  proof (induction a arbitrary: b)
    case Nil
    then show ?case by (simp add: str_def)
  next
    case (Cons c cs)
    then obtain d ds where b: "b = d # ds"
      by (cases b) (auto simp: str_def)
    then show ?case
      using Cons by (simp add: str_def of_char_word_inject)
  qed
qed simp

lemma str_Nil [simp]: "str s = [] \<longleftrightarrow> s = []" "[] = str s \<longleftrightarrow> s = []"
  by (auto simp: str_def)

lemma rank_inject: "rank a = rank b \<longleftrightarrow> a = b"
  by (cases a; cases b) simp_all

lemma descending_le: "descending a \<le> descending b \<longleftrightarrow> rank b \<le> rank a"
  by (cases a; cases b) (auto simp: descending_def less_eq_prod_def)

lemma num_le_refl: "a \<noteq> NaN \<Longrightarrow> num_le a a"
  by (simp add: num_le_def)

lemma num_less_le: "num_less a b \<longleftrightarrow> num_le a b \<and> a \<noteq> b"
  by (auto simp: num_less_def num_le_def rank_inject less_le)

lemma num_le_total: "a \<noteq> NaN \<Longrightarrow> b \<noteq> NaN \<Longrightarrow> num_le a b \<or> num_le b a"
  by (auto simp: num_le_def)

lemma round_positive_nonneg: "0 < x \<Longrightarrow> num_le (Finite 0) (round_positive x)"
  by (auto simp: round_positive_def Let_def num_le_def pow2_def round_even_def
      less_eq_prod_def intro!: mult_nonneg_nonneg)

lemma to_double_nonneg: "0 \<le> x \<Longrightarrow> num_le (Finite 0) (to_double x)"
  using round_positive_nonneg [of x] by (auto simp: to_double_def num_le_def)

section \<open>Properties of the tier resolver\<close>

lemma find_tiers_set:
  "set (find_tiers coll r v) = {t \<in> set coll. qualifies r v t}"
  by (auto simp: find_tiers_def qualifies_def)

lemma find_tiers_sorted:
  "sorted (map (\<lambda>t. descending (minSalesValue t)) (find_tiers coll r v))"
  by (simp add: find_tiers_def)

lemma find_tiers_empty:
  "find_tiers coll r v = [] \<longleftrightarrow> (\<forall>t\<in>set coll. \<not> qualifies r v t)"
proof -
  have "find_tiers coll r v = [] \<longleftrightarrow> set (find_tiers coll r v) = {}"
    by simp
  then show ?thesis
    unfolding find_tiers_set by blast
qed

lemma qualifies_not_NaN: "qualifies r v t \<Longrightarrow> v \<noteq> NaN \<and> minSalesValue t \<noteq> NaN"
  by (auto simp: qualifies_def num_le_def)

lemma find_tiers_head:
  assumes "find_tiers coll r v = t # ts"
  shows "t \<in> set coll" and "qualifies r v t"
    and "\<forall>u\<in>set coll. qualifies r v u \<longrightarrow> num_le (minSalesValue u) (minSalesValue t)"
proof -
  have "t \<in> set (find_tiers coll r v)"
    using assms by simp
  then show t: "t \<in> set coll" "qualifies r v t"
    unfolding find_tiers_set by simp_all
  have "sorted (map (\<lambda>t. descending (minSalesValue t)) (t # ts))"
    using find_tiers_sorted [of coll r v] assms by simp
  then have "\<forall>u\<in>set (t # ts). descending (minSalesValue t) \<le> descending (minSalesValue u)"
    by auto
  then have "\<forall>u\<in>set (find_tiers coll r v). rank (minSalesValue u) \<le> rank (minSalesValue t)"
    using assms by (simp add: descending_le)
  then show "\<forall>u\<in>set coll. qualifies r v u \<longrightarrow> num_le (minSalesValue u) (minSalesValue t)"
    using t(2) qualifies_not_NaN unfolding find_tiers_set by (auto simp: num_le_def)
qed

lemma same_resolver:
  "calculateCommissionForSale coll v r = calculateCommission coll v r"
  by (simp add: calculateCommissionForSale_def calculateCommission_def)

lemma resolver_NaN: "calculateCommission coll NaN r = Inl CastError"
  by (simp add: calculateCommission_def)

lemma no_tier_zero:
  "v \<noteq> NaN \<Longrightarrow> \<forall>t\<in>set coll. \<not> qualifies r v t \<Longrightarrow> calculateCommission coll v r = Inr (Finite 0)"
  using find_tiers_empty [of coll r v] by (simp add: calculateCommission_def)

lemma highest_bracket:
  assumes "\<exists>t\<in>set coll. qualifies r v t"
  shows "\<exists>t\<in>set coll. qualifies r v t
           \<and> (\<forall>u\<in>set coll. qualifies r v u \<longrightarrow> num_le (minSalesValue u) (minSalesValue t))
           \<and> calculateCommission coll v r
               = Inr (times v (hundredth (commissionPercentage t)))"
proof (cases "find_tiers coll r v")
  case Nil
  then show ?thesis
    using assms find_tiers_empty [of coll r v] by blast
next
  case (Cons t ts)
  have "v \<noteq> NaN"
    using assms qualifies_not_NaN by blast
  then have "calculateCommission coll v r = Inr (times v (hundredth (commissionPercentage t)))"
    by (simp add: calculateCommission_def Cons)
  then show ?thesis
    using find_tiers_head [OF Cons] by blast
qed

lemma example_values:
  "to_double (99999 / 100) = Finite (4398002530638889 / 4398046511104)"
  "to_double (100001 / 100) = Finite (4398090491569111 / 4398046511104)"
  "to_double (500001 / 100) = Finite (2748784566998139 / 549755813888)"
  by (simp_all add: double_eval)

lemma example_tiers_low:
  assumes "0 \<le> x" and "x < 1000"
  shows "find_tiers example_tiers Influencer (Finite x) = [example_tiers ! 0]"
  using assms
  by (simp add: find_tiers_def example_tiers_def example_values num_le_def less_eq_prod_def)

lemma example_product:
  "times (Finite (4398002530638889 / 4398046511104)) (hundredth (Finite 10))
     = Finite (7036804049022223 / 70368744177664)"
  "times (Finite 150) (hundredth (Finite 10)) = Finite 15"
  "times (Finite 150) (hundredth (Finite 5)) = Finite (15 / 2)"
  by (simp_all add: times_def hundredth_def double_eval)

text \<open>
  Claim C1, as amended. Both copies of the resolver give the same result. For a sale
  value that is a number (not \<^verbatim>\<open>NaN\<close>) the result is no error: it is exactly 0 when
  no tier qualifies, and otherwise the double-precision product of the sale value
  and the hundredth of the percentage of a qualifying tier whose \<^verbatim>\<open>minSalesValue\<close>
  is largest among the qualifying tiers, the hundredth being rounded to a double
  before the product is. Only \<^verbatim>\<open>NaN\<close> as the sale value is an error.
\<close>

theorem commission_resolution:
  "calculateCommissionForSale coll v r = calculateCommission coll v r
   \<and> calculateCommission coll NaN r = Inl CastError
   \<and> (v \<noteq> NaN \<and> (\<forall>t\<in>set coll. \<not> qualifies r v t)
        \<longrightarrow> calculateCommission coll v r = Inr (Finite 0))
   \<and> ((\<exists>t\<in>set coll. qualifies r v t) \<longrightarrow>
        (\<exists>t\<in>set coll. qualifies r v t
           \<and> (\<forall>u\<in>set coll. qualifies r v u \<longrightarrow> num_le (minSalesValue u) (minSalesValue t))
           \<and> calculateCommission coll v r
               = Inr (times v (hundredth (commissionPercentage t)))))"
  using same_resolver resolver_NaN no_tier_zero highest_bracket by blast

theorem commission_resolution_witness:
  "(\<exists>t\<in>set example_tiers. qualifies Influencer (Finite 150) t)
   \<and> calculateCommission example_tiers (Finite 150) Influencer = Inr (Finite 15)
   \<and> calculateCommissionForSale example_tiers (Finite 150) Influencer = Inr (Finite 15)
   \<and> set ([] :: commission_tier list) = {}
   \<and> calculateCommission [] (Finite 50) Manager = Inr (Finite 0)"
proof -
  have q: "qualifies Influencer (Finite 150) (example_tiers ! 0)"
    by (simp add: qualifies_def example_tiers_def num_le_def)
  have "\<not> qualifies Influencer (Finite 150) (example_tiers ! 1)"
    "\<not> qualifies Influencer (Finite 150) (example_tiers ! 2)"
    by (simp_all add: qualifies_def example_tiers_def example_values num_le_def less_eq_prod_def)
  then have only: "\<forall>t\<in>set example_tiers. qualifies Influencer (Finite 150) t
      \<longrightarrow> commissionPercentage t = Finite 10"
    by (auto simp: example_tiers_def)
  have ex: "\<exists>t\<in>set example_tiers. qualifies Influencer (Finite 150) t"
    using q by (auto simp: example_tiers_def)
  have "calculateCommission example_tiers (Finite 150) Influencer = Inr (Finite 15)"
    using commission_resolution [of example_tiers "Finite 150" Influencer] ex only
    by (auto simp: example_product)
  moreover have "calculateCommissionForSale example_tiers (Finite 150) Influencer
      = calculateCommission example_tiers (Finite 150) Influencer"
    using commission_resolution [of example_tiers "Finite 150" Influencer] by blast
  moreover have "calculateCommission [] (Finite 50) Manager = Inr (Finite 0)"
    using commission_resolution [of "[]" "Finite 50" Manager] by simp
  ultimately show ?thesis
    using ex by simp
qed

text \<open>
  The claim as stated, with the product \<open>saleValue * pct / 100\<close>, fails at the sale
  value 999.99 under the 10 percent tier: the resolver returns the double that prints
  as 99.99900000000001, which is neither the product of the sale value and a tenth
  nor the double nearest to 99.999.
\<close>

lemma example_printed:
  "num_toString (Finite (7036804049022223 / 70368744177664)) = str ''99.99900000000001''"
proof -
  have "shortest (7036804049022223 / 70368744177664) = (9999900000000001, - 14)"
    by (simp add: shortest_def shortest_digits_numeral digits_at_def round_trips_def double_eval)
  moreover have "nat_digits 9999900000000001 = str ''9999900000000001''"
    by (simp add: nat_digits.simps digit_char_def str_def)
  ultimately show ?thesis
    by (simp add: num_toString_def positive_toString_def) (simp add: str_def)
qed

theorem commission_rounding_counterexample:
  "calculateCommission example_tiers (to_double (99999 / 100)) Influencer
     = Inr (Finite (7036804049022223 / 70368744177664))
   \<and> num_toString (Finite (7036804049022223 / 70368744177664)) = str ''99.99900000000001''
   \<and> to_double (99999 / 100) = Finite (4398002530638889 / 4398046511104)
   \<and> (7036804049022223 / 70368744177664 :: real) \<noteq> 4398002530638889 / 4398046511104 * 10 / 100
   \<and> to_double (99999 / 1000) \<noteq> Finite (7036804049022223 / 70368744177664)
   \<and> to_double (4398002530638889 / 4398046511104 * 10 / 100)
       \<noteq> Finite (7036804049022223 / 70368744177664)"
proof -
  have "calculateCommission example_tiers (to_double (99999 / 100)) Influencer
      = Inr (Finite (7036804049022223 / 70368744177664))"
    using example_tiers_low [of "4398002530638889 / 4398046511104"]
    by (simp add: calculateCommission_def example_values example_product example_tiers_def)
  moreover have "to_double (99999 / 1000) \<noteq> Finite (7036804049022223 / 70368744177664)"
    by (simp add: double_eval)
  moreover have "to_double (4398002530638889 / 4398046511104 * 10 / 100)
       \<noteq> Finite (7036804049022223 / 70368744177664)"
    by (simp add: double_eval)
  ultimately show ?thesis
    by (simp add: example_printed example_values)
qed

subsection \<open>The upper bound of a tier\<close>

lemma insort_key_map_commute:
  "insort_key f (g x) (map g xs) = map g (insort_key (\<lambda>a. f (g a)) x xs)"
  by (induction xs) simp_all

lemma sort_key_map_commute:
  "sort_key f (map g xs) = map g (sort_key (\<lambda>a. f (g a)) xs)"
  by (induction xs) (simp_all add: insort_key_map_commute)

lemma find_tiers_max_irrelevant:
  "find_tiers (map (\<lambda>t. t\<lparr>maxSalesValue := f t\<rparr>) coll) r v
     = map (\<lambda>t. t\<lparr>maxSalesValue := f t\<rparr>) (find_tiers coll r v)"
  by (simp add: find_tiers_def sort_key_map_commute filter_map comp_def)

lemma calculateCommission_max_irrelevant:
  "calculateCommission (map (\<lambda>t. t\<lparr>maxSalesValue := f t\<rparr>) coll) v r
     = calculateCommission coll v r"
  by (simp add: calculateCommission_def find_tiers_max_irrelevant split: list.splits)

lemma top_tier_percentage:
  assumes "t \<in> set coll" and "qualifies r v t"
    and "\<forall>u\<in>set coll. qualifies r v u \<and> commissionPercentage u \<noteq> commissionPercentage t
           \<longrightarrow> num_less (minSalesValue u) (minSalesValue t)"
  shows "calculateCommission coll v r = Inr (times v (hundredth (commissionPercentage t)))"
proof -
  obtain w where w: "w \<in> set coll" "qualifies r v w"
      "\<forall>u\<in>set coll. qualifies r v u \<longrightarrow> num_le (minSalesValue u) (minSalesValue w)"
      "calculateCommission coll v r = Inr (times v (hundredth (commissionPercentage w)))"
    using highest_bracket [of coll r v] assms(1,2) by blast
  have "commissionPercentage w = commissionPercentage t"
  proof (rule ccontr)
    assume "commissionPercentage w \<noteq> commissionPercentage t"
    then have "num_less (minSalesValue w) (minSalesValue t)"
      using assms(3) w(1,2) by blast
    moreover have "num_le (minSalesValue t) (minSalesValue w)"
      using w(3) assms(1,2) by blast
    ultimately show False
      by (auto simp: num_less_def num_le_def)
  qed
  then show ?thesis
    using w by simp
qed

text \<open>
  Claim C10. The resolver never reads \<^verbatim>\<open>maxSalesValue\<close>: overwriting the upper
  bounds of all tiers in any way leaves the result of both copies unchanged, and a
  qualifying tier that no qualifying tier of a different percentage reaches in
  \<^verbatim>\<open>minSalesValue\<close> gives its percentage also to a sale value strictly above its own
  upper bound.
\<close>

theorem max_bound_not_consulted:
  "calculateCommission (map (\<lambda>t. t\<lparr>maxSalesValue := f t\<rparr>) coll) v r
     = calculateCommission coll v r
   \<and> calculateCommissionForSale (map (\<lambda>t. t\<lparr>maxSalesValue := f t\<rparr>) coll) v r
     = calculateCommissionForSale coll v r
   \<and> (\<forall>t\<in>set coll. \<forall>m.
         qualifies r v t \<and> maxSalesValue t = Some m \<and> num_less m v
         \<and> (\<forall>u\<in>set coll. qualifies r v u \<and> commissionPercentage u \<noteq> commissionPercentage t
               \<longrightarrow> num_less (minSalesValue u) (minSalesValue t))
         \<longrightarrow> calculateCommission coll v r
               = Inr (times v (hundredth (commissionPercentage t)))
           \<and> calculateCommissionForSale coll v r
               = Inr (times v (hundredth (commissionPercentage t))))"
  using calculateCommission_max_irrelevant [of f coll v r] top_tier_percentage [of _ coll r v]
  by (simp add: same_resolver)

theorem max_bound_not_consulted_witness:
  "qualifies Influencer (to_double (200001 / 200)) (example_tiers ! 0)
   \<and> maxSalesValue (example_tiers ! 0) = Some (Finite 1000)
   \<and> num_less (Finite 1000) (to_double (200001 / 200))
   \<and> calculateCommission example_tiers (to_double (200001 / 200)) Influencer
       = Inr (times (to_double (200001 / 200)) (hundredth (Finite 10)))
   \<and> calculateCommission (map (\<lambda>t. t\<lparr>maxSalesValue := None\<rparr>) example_tiers)
         (to_double (200001 / 200)) Influencer
       = Inr (times (to_double (200001 / 200)) (hundredth (Finite 10)))
   \<and> times (to_double (200001 / 200)) (hundredth (Finite 10))
       = Finite (7036909602138489 / 70368744177664)"
proof -
  have v: "to_double (200001 / 200) = Finite (8796137002673111 / 8796093022208)"
    by (simp add: double_eval)
  have p: "times (Finite (8796137002673111 / 8796093022208)) (hundredth (Finite 10))
      = Finite (7036909602138489 / 70368744177664)"
    by (simp add: times_def hundredth_def double_eval)
  show ?thesis
    using max_bound_not_consulted [of "\<lambda>t. None" example_tiers "to_double (200001 / 200)" Influencer]
    by (simp add: v p example_tiers_def example_values qualifies_def num_le_def num_less_def
        less_eq_prod_def)
qed

section \<open>Properties of sale ingestion\<close>

lemma errorHandler_status [simp]:
  "status (errorHandler c x) = (if c = 200 then 500 else c)"
  "body (errorHandler c x) = ErrorMessage x"
  by (simp_all add: errorHandler_def)


lemma notify_sales [simp]:
  "sales (notify_new_sale d infl rn) = sales d"
  "users (notify_new_sale d infl rn) = users d"
  "tiers (notify_new_sale d infl rn) = tiers d"
  "payments (notify_new_sale d infl rn) = payments d"
  "next_id (notify_new_sale d infl rn) = next_id d"
  by (simp_all add: notify_new_sale_def split: option.splits)
























subsection \<open>Runs on the example data\<close>

lemma example_db_fields [simp]:
  "users example_db = example_users" "sales example_db = []" "outbox example_db = []"
  "next_id example_db = 100" "payments example_db = []"
  by (simp_all add: example_db_def)

lemma example_users_fields [simp]:
  "user_id antonio = 8" "user_manager antonio = Some 7"
  "couponCode antonio = Some (str ''antonio10'')"
  "whatsappNumber antonio = Some (str ''5511999999999'')"
  "user_id gestora = 7" "couponCode gestora = None" "tokenWhats gestora = Some (str ''token-1'')"
  by (simp_all add: antonio_def gestora_def)


lemma example_manager [simp]:
  "User_findById example_users 7 = Some gestora"
  by (simp add: User_findById_def example_users_def)






lemma example_date [simp]: "truthy v \<Longrightarrow> new_Date example_env v = Inr (Some 500)"
  by (simp add: new_Date_def example_env_def)

lemma example_no_sale [simp]: "Sale_findOne_orderId [] key = None"
  by (simp add: Sale_findOne_orderId_def)



lemma ingest_simps [simp]:
  "ingest Shopify = processShopifyWebhook" "ingest CartPanda = processCartPandaWebhook"
  "ingest GenericSale = processSaleWebhook"
  by (simp_all add: ingest_def processShopifyWebhook_def processCartPandaWebhook_def processSaleWebhook_def)

lemma example_db_after_fields [simp]:
  "sales (example_db_after k) = [example_sale k]" "users (example_db_after k) = example_users"
  "next_id (example_db_after k) = 101" "tiers (example_db_after k) = tiers example_db"
  "payments (example_db_after k) = []"
  "outbox (example_db_after k) = [(str ''5511999999999'', str ''token-1'')]"
  by (simp_all add: example_db_after_def)

lemma example_sale_key [simp]: "orderId (example_sale k) = k" "sale_id (example_sale k) = 100"
  by (simp_all add: example_sale_def)









subsection \<open>Replay of a known order\<close>




subsection \<open>A uniqueness violation at the insert\<close>




end
